theory Spec2Isabelle
  imports Main "HOL-Library.Sublist"
begin

section \<open>Strings and optional values of the source\<close>

text \<open>
  The theory embeds \<^verbatim>\<open>src/services/geminiService.ts\<close>: the helper \<^verbatim>\<open>fileToPart\<close>,
  the classifier \<^verbatim>\<open>handleApiResponse\<close> and the post-processing of \<^verbatim>\<open>generateLogos\<close>.

  A JavaScript string is the list of its code units; the model uses \<^typ>\<open>string\<close>, so
  the code units range over 0..255. An optional property (\<^verbatim>\<open>field?: T\<close>) is a value of
  type \<^typ>\<open>'a option\<close>, with \<^term>\<open>None\<close> for \<^verbatim>\<open>undefined\<close>. The calls of \<^verbatim>\<open>console.log\<close> and
  \<^verbatim>\<open>console.error\<close> do not change what a function returns or throws and are left out.
\<close>

definition truthy :: "string option \<Rightarrow> bool" where
  \<comment> \<open>the test \<^verbatim>\<open>if (s)\<close> on an optional string: defined and not the empty string\<close>
  "truthy v = (case v of None \<Rightarrow> False | Some s \<Rightarrow> s \<noteq> [])"

definition tmpl :: "string option \<Rightarrow> string" where
  \<comment> \<open>the interpolation \<^verbatim>\<open>${v}\<close> of a template literal\<close>
  "tmpl v = (case v of None \<Rightarrow> ''undefined'' | Some s \<Rightarrow> s)"

definition or_empty :: "string option \<Rightarrow> string option" where
  \<comment> \<open>the expression \<^verbatim>\<open>v || ''\<close>\<close>
  "or_empty v = (if truthy v then v else Some [])"

definition first_elem :: "'a list \<Rightarrow> 'a option" where
  \<comment> \<open>the index expression \<^verbatim>\<open>xs[0]\<close>, which is \<^verbatim>\<open>undefined\<close> on an empty array\<close>
  "first_elem xs = (case xs of [] \<Rightarrow> None | x # _ \<Rightarrow> Some x)"

definition is_ws :: "char \<Rightarrow> bool" where
  \<comment> \<open>white space and line terminators of ECMAScript among the code units below 256:
      TAB, LF, VT, FF, CR, SP, NBSP\<close>
  "is_ws c = (of_char c \<in> {9, 10, 11, 12, 13, 32, 160 :: nat})"

definition trim :: "string \<Rightarrow> string" where
  \<comment> \<open>\<^verbatim>\<open>String.prototype.trim\<close>\<close>
  "trim s = rev (dropWhile is_ws (rev (dropWhile is_ws s)))"

definition is_line_terminator :: "char \<Rightarrow> bool" where
  \<comment> \<open>the code units that the regular expression atom \<^verbatim>\<open>.\<close> does not match: LF and CR\<close>
  "is_line_terminator c = (of_char c \<in> {10, 13 :: nat})"

fun js_split :: "char \<Rightarrow> string \<Rightarrow> string list" where
  \<comment> \<open>\<^verbatim>\<open>s.split(c)\<close> for a one-character separator; the empty string gives one empty segment.
      The result is never empty (\<open>js_split_nonempty\<close> below), so the first branch of the
      \<open>case\<close> is never taken\<close>
  "js_split c [] = [[]]"
| "js_split c (x # xs) =
     (if x = c then [] # js_split c xs
      else (case js_split c xs of
              [] \<Rightarrow> [[x]]
            | w # ws \<Rightarrow> (x # w) # ws))"

fun lazy_to_semicolon :: "string \<Rightarrow> string option" where
  \<comment> \<open>the tail \<^verbatim>\<open>(.*?);\<close> of the pattern, tried at one position: the shortest run of
      characters other than line terminators that is followed by a semicolon\<close>
  "lazy_to_semicolon [] = None"
| "lazy_to_semicolon (x # xs) =
     (if x = CHR '';'' then Some []
      else if is_line_terminator x then None
      else map_option ((#) x) (lazy_to_semicolon xs))"

fun mimeMatch :: "string \<Rightarrow> string option" where
  \<comment> \<open>\<^verbatim>\<open>s.match(/:(.*?);/)\<close>: \<^term>\<open>None\<close> when there is no match, otherwise capture group 1 of
      the leftmost match\<close>
  "mimeMatch [] = None"
| "mimeMatch (x # xs) =
     (if x = CHR '':'' then
        (case lazy_to_semicolon xs of
           Some g \<Rightarrow> Some g
         | None \<Rightarrow> mimeMatch xs)
      else mimeMatch xs)"

section \<open>Data of the service interface\<close>

text \<open>
  The types of the SDK, with the properties the code reads. Every property is optional,
  as the optional chaining of the source (\<^verbatim>\<open>?.\<close>) expects. \<^verbatim>\<open>response.text\<close> is an accessor of
  the SDK; the model takes its value as the field \<open>text_getter\<close>.
\<close>

record Blob =
  mimeType :: "string option"
  data :: "string option"

record Part =
  inlineData :: "Blob option"

record Content =
  parts :: "Part list option"

record Candidate =
  content :: "Content option"
  finishReason :: "string option"

record PromptFeedback =
  blockReason :: "string option"
  blockReasonMessage :: "string option"

record GenerateContentResponse =
  promptFeedback :: "PromptFeedback option"
  candidates :: "Candidate list option"
  text_getter :: "string option"

record Image =
  imageBytes :: "string option"

record GeneratedImage =
  image_obj :: "Image option"

record GenerateImagesResponse =
  generatedImages :: "GeneratedImage list option"

text \<open>
  Every failure of the source is a thrown \<^verbatim>\<open>Error\<close> object that carries a message. The
  constructor records which \<^verbatim>\<open>throw\<close> statement raised it: the three of
  \<^verbatim>\<open>handleApiResponse\<close> (prompt blocked, abnormal stop, no image), the one of
  \<^verbatim>\<open>generateLogos\<close> (no images, also \<open>EmptyResult\<close>) and the two of \<^verbatim>\<open>fileToPart\<close>.
  \<open>TypeError\<close> is the error of the runtime for a property read on \<^verbatim>\<open>undefined\<close>.
\<close>

datatype failure =
    Blocked string
  | StoppedEarly string
  | EmptyResult string
  | EncodingError string
  | TypeError

section \<open>fileToPart\<close>

text \<open>
  \<^verbatim>\<open>fileToPart\<close> after the read: the argument is the data URL that
  \<^verbatim>\<open>FileReader.readAsDataURL\<close> produced (a failed read rejects the promise before any
  line of the function body below runs).
\<close>

definition fileToPart :: "string \<Rightarrow> failure + Part" where
  "fileToPart dataUrl =
     (let arr = js_split CHR '','' dataUrl in
      if length arr < 2 then Inl (EncodingError ''Invalid data URL'')
      else
        (case mimeMatch (arr ! 0) of
           None \<Rightarrow> Inl (EncodingError ''Could not parse MIME type from data URL'')
         | Some g \<Rightarrow>
             if g = [] then Inl (EncodingError ''Could not parse MIME type from data URL'')
             else Inr \<lparr>inlineData = Some \<lparr>mimeType = Some g, data = Some (arr ! 1)\<rparr>\<rparr>))"


section \<open>handleApiResponse\<close>

definition blockReasonOf :: "GenerateContentResponse \<Rightarrow> string option" where
  \<comment> \<open>\<^verbatim>\<open>response.promptFeedback?.blockReason\<close>\<close>
  "blockReasonOf response = Option.bind (promptFeedback response) blockReason"

definition firstCandidate :: "GenerateContentResponse \<Rightarrow> Candidate option" where
  \<comment> \<open>\<^verbatim>\<open>response.candidates?.[0]\<close>\<close>
  "firstCandidate response = Option.bind (candidates response) first_elem"

definition partsOf :: "Candidate \<Rightarrow> Part list" where
  \<comment> \<open>the content segments of a candidate, none when \<^verbatim>\<open>content\<close> or \<^verbatim>\<open>parts\<close> is absent;
      used to state the theorems, not by the classifier\<close>
  "partsOf c =
     (case content c of
        None \<Rightarrow> []
      | Some ct \<Rightarrow> (case parts ct of None \<Rightarrow> [] | Some ps \<Rightarrow> ps))"

definition imagePartFromResponse :: "GenerateContentResponse \<Rightarrow> Part option" where
  \<comment> \<open>\<^verbatim>\<open>response.candidates?.[0]?.content?.parts?.find(part => part.inlineData)\<close>\<close>
  "imagePartFromResponse response =
     Option.bind (Option.bind (Option.bind (firstCandidate response) content) parts)
       (List.find (\<lambda>part. inlineData part \<noteq> None))"

definition finishReasonOf :: "GenerateContentResponse \<Rightarrow> string option" where
  \<comment> \<open>\<^verbatim>\<open>response.candidates?.[0]?.finishReason\<close>\<close>
  "finishReasonOf response = Option.bind (firstCandidate response) finishReason"

definition blockReasonMessageOf :: "GenerateContentResponse \<Rightarrow> string option" where
  \<comment> \<open>\<^verbatim>\<open>blockReasonMessage\<close> of the destructured \<^verbatim>\<open>response.promptFeedback\<close>\<close>
  "blockReasonMessageOf response = Option.bind (promptFeedback response) blockReasonMessage"

definition blockedMessage :: "string option \<Rightarrow> string option \<Rightarrow> string" where
  "blockedMessage br brm =
     ''Request was blocked. Reason: '' @ tmpl br @ ''. '' @ tmpl (or_empty brm)"

definition stoppedMessage :: "string \<Rightarrow> string option \<Rightarrow> string" where
  "stoppedMessage ctx fr =
     ''Image generation for '' @ ctx @ '' stopped unexpectedly. Reason: '' @ tmpl fr
       @ ''. This often relates to safety settings.''"

definition genericAdvice :: string where
  "genericAdvice =
     ''This can happen due to safety filters or if the request is too complex. ''
       @ ''Please try rephrasing your prompt to be more direct.''"

definition emptyMessage :: "string \<Rightarrow> string option \<Rightarrow> string" where
  "emptyMessage ctx textFeedback =
     ''The AI model did not return an image for the '' @ ctx @ ''. ''
       @ (if truthy textFeedback
          then ''The model responded with text: '' @ [CHR 0x22] @ tmpl textFeedback @ [CHR 0x22]
          else genericAdvice)"

definition handleApiResponse :: "GenerateContentResponse \<Rightarrow> string \<Rightarrow> failure + string" where
  "handleApiResponse response ctx =
     (if truthy (blockReasonOf response) then
        Inl (Blocked (blockedMessage (blockReasonOf response) (blockReasonMessageOf response)))
      else
        (case Option.bind (imagePartFromResponse response) inlineData of
           Some b \<Rightarrow> Inr (''data:'' @ tmpl (mimeType b) @ '';base64,'' @ tmpl (data b))
         | None \<Rightarrow>
             (let fr = finishReasonOf response in
              if truthy fr \<and> fr \<noteq> Some ''STOP'' then Inl (StoppedEarly (stoppedMessage ctx fr))
              else Inl (EmptyResult (emptyMessage ctx (map_option trim (text_getter response)))))))"

section \<open>generateLogos\<close>

text \<open>
  \<^verbatim>\<open>generateLogos\<close> after the call of the service: the argument is the response that
  \<^verbatim>\<open>ai.models.generateImages\<close> resolved to. \<open>logoUrls\<close> is the \<^verbatim>\<open>map\<close> over the array; the read
  \<^verbatim>\<open>img.image.imageBytes\<close> has no optional chaining and throws on an entry without
  \<^verbatim>\<open>image\<close>.
\<close>

definition noImagesMessage :: string where
  "noImagesMessage =
     ''The AI model did not return any images. This could be due to safety filters or ''
       @ ''a complex prompt. Please try again with different keywords.''"

fun logoUrls :: "GeneratedImage list \<Rightarrow> failure + string list" where
  "logoUrls [] = Inr []"
| "logoUrls (img # rest) =
     (case image_obj img of
        None \<Rightarrow> Inl TypeError
      | Some im \<Rightarrow>
          (case logoUrls rest of
             Inl e \<Rightarrow> Inl e
           | Inr urls \<Rightarrow> Inr ((''data:image/png;base64,'' @ tmpl (imageBytes im)) # urls)))"

definition generateLogos :: "GenerateImagesResponse \<Rightarrow> failure + string list" where
  "generateLogos response =
     (case generatedImages response of
        None \<Rightarrow> Inl (EmptyResult noImagesMessage)
      | Some imgs \<Rightarrow>
          if length imgs = 0 then Inl (EmptyResult noImagesMessage)
          else logoUrls imgs)"

section \<open>Auxiliary facts\<close>

lemma find_first_hit:
  "\<forall>q\<in>set pre. \<not> P q \<Longrightarrow> P p \<Longrightarrow> List.find P (pre @ p # post) = Some p"
  by (induction pre) auto

lemma imagePart_firstCandidate:
  "candidates r = Some (c # cs) \<Longrightarrow>
   imagePartFromResponse r = List.find (\<lambda>part. inlineData part \<noteq> None) (partsOf c)"
  by (simp add: imagePartFromResponse_def firstCandidate_def first_elem_def partsOf_def
      split: option.splits)

lemma finishReason_firstCandidate:
  "candidates r = Some (c # cs) \<Longrightarrow> finishReasonOf r = finishReason c"
  by (simp add: finishReasonOf_def firstCandidate_def first_elem_def)

text \<open>The two outcomes of an unblocked response: an image part was found, or none was.\<close>

lemma unblocked_image:
  assumes "\<not> truthy (blockReasonOf r)"
    and "candidates r = Some (c # cs)"
    and "partsOf c = pre @ p # post"
    and "\<forall>q\<in>set pre. inlineData q = None"
    and "inlineData p = Some b"
  shows "handleApiResponse r ctx =
    Inr (''data:'' @ tmpl (mimeType b) @ '';base64,'' @ tmpl (data b))"
proof -
  have "imagePartFromResponse r = Some p"
    using assms by (simp add: imagePart_firstCandidate find_first_hit)
  then show ?thesis
    using assms(1,5) by (simp add: handleApiResponse_def)
qed

lemma unblocked_no_image:
  assumes "\<not> truthy (blockReasonOf r)"
    and "imagePartFromResponse r = None"
  shows "handleApiResponse r ctx =
    (if truthy (finishReasonOf r) \<and> finishReasonOf r \<noteq> Some ''STOP''
     then Inl (StoppedEarly (stoppedMessage ctx (finishReasonOf r)))
     else Inl (EmptyResult (emptyMessage ctx (map_option trim (text_getter r)))))"
  using assms by (simp add: handleApiResponse_def Let_def)

text \<open>
  Splitting: the number of segments and the first segment. \<open>js_split_no_sep\<close> and
  \<open>js_split_append\<close> together determine the result on every string: a string without the
  separator is its own single segment, and otherwise the first segment ends at the first
  separator and the rest is split in the same way.
\<close>

lemma length_js_split: "length (js_split c s) = Suc (length (filter (\<lambda>x. x = c) s))"
  by (induction s) (auto split: list.splits)

lemma js_split_few: "length (js_split c s) < 2 \<longleftrightarrow> c \<notin> set s"
  by (auto simp: length_js_split filter_empty_conv)

lemma js_split_nonempty: "js_split c s \<noteq> []"
  using length_js_split [of c s] by auto

lemma js_split_no_sep: "c \<notin> set s \<Longrightarrow> js_split c s = [s]"
  by (induction s) auto

lemma js_split_append: "c \<notin> set a \<Longrightarrow> js_split c (a @ c # b) = a # js_split c b"
  by (induction a) auto

lemma js_split_first: "js_split c s ! 0 = takeWhile (\<lambda>x. x \<noteq> c) s"
  by (induction s) (auto simp: js_split_nonempty split: list.splits)

lemma js_split_second:
  "c \<in> set s \<Longrightarrow>
   js_split c s ! 1 = takeWhile (\<lambda>x. x \<noteq> c) (tl (dropWhile (\<lambda>x. x \<noteq> c) s))"
proof (induction s)
  case Nil
  then show ?case by simp
next
  case (Cons x xs)
  show ?case
  proof (cases "x = c")
    case True
    then show ?thesis by (simp add: js_split_first)
  next
    case False
    with Cons.prems have "c \<in> set xs" by simp
    from Cons.IH [OF this] False show ?thesis
      by (cases "js_split c xs") (simp_all add: js_split_nonempty)
  qed
qed

text \<open>
  The pattern match: \<open>mimeMatch\<close> finds a match exactly when the string contains a colon that
  is followed, on the same line, by a semicolon; the group it returns lies between such a
  pair.
\<close>

lemma lazy_to_semicolon_append:
  "CHR '';'' \<notin> set m \<Longrightarrow> \<forall>x\<in>set m. \<not> is_line_terminator x \<Longrightarrow>
   lazy_to_semicolon (m @ CHR '';'' # r) = Some m"
  by (induction m) auto

lemma lazy_to_semicolon_total:
  "\<forall>x\<in>set m. \<not> is_line_terminator x \<Longrightarrow> lazy_to_semicolon (m @ CHR '';'' # r) \<noteq> None"
  by (induction m) auto

lemma lazy_to_semicolon_Some:
  "lazy_to_semicolon xs = Some g \<Longrightarrow>
   \<exists>q. xs = g @ CHR '';'' # q \<and> CHR '';'' \<notin> set g \<and> (\<forall>x\<in>set g. \<not> is_line_terminator x)"
  by (induction xs arbitrary: g) (auto split: if_splits)

lemma mimeMatch_append:
  "CHR '':'' \<notin> set p \<Longrightarrow> CHR '';'' \<notin> set m \<Longrightarrow> \<forall>x\<in>set m. \<not> is_line_terminator x \<Longrightarrow>
   mimeMatch (p @ CHR '':'' # m @ CHR '';'' # r) = Some m"
  by (induction p) (auto simp: lazy_to_semicolon_append)

lemma mimeMatch_Some:
  "mimeMatch s = Some g \<Longrightarrow>
   \<exists>p q. s = p @ CHR '':'' # g @ CHR '';'' # q \<and> (\<forall>x\<in>set g. \<not> is_line_terminator x)"
proof (induction s)
  case Nil
  then show ?case by simp
next
  case (Cons x xs)
  show ?case
  proof (cases "x = CHR '':'' \<and> lazy_to_semicolon xs \<noteq> None")
    case True
    with Cons.prems have "lazy_to_semicolon xs = Some g" by auto
    from lazy_to_semicolon_Some [OF this] obtain q where
      "xs = g @ CHR '';'' # q" "\<forall>x\<in>set g. \<not> is_line_terminator x" by blast
    with True have "x # xs = [] @ CHR '':'' # g @ CHR '';'' # q \<and> (\<forall>x\<in>set g. \<not> is_line_terminator x)"
      by simp
    then show ?thesis by blast
  next
    case False
    with Cons.prems have "mimeMatch xs = Some g" by (auto split: if_splits option.splits)
    from Cons.IH [OF this] obtain p q where
      "xs = p @ CHR '':'' # g @ CHR '';'' # q" "\<forall>x\<in>set g. \<not> is_line_terminator x" by blast
    then have "x # xs = (x # p) @ CHR '':'' # g @ CHR '';'' # q \<and> (\<forall>x\<in>set g. \<not> is_line_terminator x)"
      by simp
    then show ?thesis by blast
  qed
qed

lemma mimeMatch_complete:
  "\<forall>x\<in>set m. \<not> is_line_terminator x \<Longrightarrow> mimeMatch (p @ CHR '':'' # m @ CHR '';'' # r) \<noteq> None"
  by (induction p) (auto simp: lazy_to_semicolon_total split: option.splits)

lemma mimeMatch_None_iff:
  "mimeMatch s = None \<longleftrightarrow>
   \<not> (\<exists>p m q. s = p @ CHR '':'' # m @ CHR '';'' # q \<and> (\<forall>x\<in>set m. \<not> is_line_terminator x))"
  using mimeMatch_complete mimeMatch_Some by (metis not_Some_eq)



text \<open>
  \<^verbatim>\<open>fileToPart\<close> succeeds exactly on the inputs with a comma whose first segment has a match
  with a group that is not empty, and then returns that group and the second segment. On
  a URL that begins \<^verbatim>\<open>data:<type>;\<close> the group is the type.
\<close>

lemma fileToPart_success_iff:
  "fileToPart url = Inr part \<longleftrightarrow>
     CHR '','' \<in> set url
     \<and> (\<exists>g. g \<noteq> [] \<and> mimeMatch (takeWhile (\<lambda>x. x \<noteq> CHR '','') url) = Some g
          \<and> part = \<lparr>inlineData = Some \<lparr>mimeType = Some g,
               data = Some (takeWhile (\<lambda>x. x \<noteq> CHR '','')
                 (tl (dropWhile (\<lambda>x. x \<noteq> CHR '','') url)))\<rparr>\<rparr>)"
proof (cases "CHR '','' \<in> set url")
  case False
  then have "length (js_split CHR '','' url) < 2" by (simp add: js_split_few)
  with False show ?thesis by (simp add: fileToPart_def Let_def)
next
  case True
  then have l: "\<not> length (js_split CHR '','' url) < 2" by (simp add: js_split_few)
  have s: "js_split CHR '','' url ! Suc 0 =
      takeWhile (\<lambda>x. x \<noteq> CHR '','') (tl (dropWhile (\<lambda>x. x \<noteq> CHR '','') url))"
    using js_split_second [OF True] by simp
  from True l show ?thesis
    by (auto simp: fileToPart_def Let_def js_split_first s split: option.splits)
qed

lemma fileToPart_typed_url:
  assumes "ty \<noteq> []"
    and "\<forall>ch\<in>set ty. ch \<noteq> CHR '','' \<and> ch \<noteq> CHR '';'' \<and> \<not> is_line_terminator ch"
    and "CHR '','' \<in> set rest"
  shows "fileToPart (''data:'' @ ty @ CHR '';'' # rest) =
    Inr \<lparr>inlineData = Some \<lparr>mimeType = Some ty,
      data = Some (takeWhile (\<lambda>x. x \<noteq> CHR '','') (tl (dropWhile (\<lambda>x. x \<noteq> CHR '','') rest)))\<rparr>\<rparr>"
proof -
  let ?P = "\<lambda>x. x \<noteq> CHR '',''"
  let ?url = "''data:'' @ ty @ CHR '';'' # rest"
  have p: "\<forall>x\<in>set (''data:'' @ ty @ [CHR '';'']). ?P x"
    using assms(2) by auto
  have u: "?url = (''data:'' @ ty @ [CHR '';'']) @ rest" by simp
  have t: "takeWhile ?P ?url = ''data:'' @ ty @ CHR '';'' # takeWhile ?P rest"
    unfolding u using p by (subst takeWhile_append2) auto
  have d: "dropWhile ?P ?url = dropWhile ?P rest"
    unfolding u using p by (subst dropWhile_append2) auto
  have "mimeMatch (''data'' @ CHR '':'' # ty @ CHR '';'' # takeWhile ?P rest) = Some ty"
    using assms(2) by (intro mimeMatch_append) auto
  then have m: "mimeMatch (takeWhile ?P ?url) = Some ty"
    unfolding t by simp
  have c: "CHR '','' \<in> set ?url" using assms(3) by simp
  show ?thesis
    unfolding fileToPart_success_iff d using m c assms(1) by simp
qed

text \<open>The \<^verbatim>\<open>map\<close> of \<^verbatim>\<open>generateLogos\<close>: it fails only with the runtime's error.\<close>

lemma logoUrls_all_images:
  "logoUrls (map (\<lambda>im. \<lparr>image_obj = Some im\<rparr>) ims) =
   Inr (map (\<lambda>im. ''data:image/png;base64,'' @ tmpl (imageBytes im)) ims)"
  by (induction ims) simp_all

lemma logoUrls_failure: "logoUrls imgs = Inl e \<Longrightarrow> e = TypeError"
  by (induction imgs arbitrary: e) (auto split: option.splits sum.splits)

lemmas eval_defs =
  handleApiResponse_def blockReasonOf_def blockReasonMessageOf_def firstCandidate_def
  first_elem_def imagePartFromResponse_def finishReasonOf_def partsOf_def truthy_def tmpl_def
  or_empty_def blockedMessage_def stoppedMessage_def emptyMessage_def genericAdvice_def
  trim_def is_ws_def

section \<open>Claims about the classifier\<close>

text \<open>
  Claim C9. A response whose block reason is present but is the empty string is not
  classified as blocked: the test of the source is on truthiness. The classifier returns
  what it returns for the same response without any prompt feedback, and the result is
  never the failure of the prompt-block branch.
\<close>

theorem empty_block_reason_not_blocked:
  assumes "promptFeedback r = Some pf" and "blockReason pf = Some []"
  shows "handleApiResponse r ctx = handleApiResponse (r\<lparr>promptFeedback := None\<rparr>) ctx
    \<and> (\<forall>m. handleApiResponse r ctx \<noteq> Inl (Blocked m))"
proof -
  have nb: "\<not> truthy (blockReasonOf r)"
    using assms by (simp add: blockReasonOf_def truthy_def)
  have nb': "\<not> truthy (blockReasonOf (r\<lparr>promptFeedback := None\<rparr>))"
    by (simp add: blockReasonOf_def truthy_def)
  have same: "imagePartFromResponse (r\<lparr>promptFeedback := None\<rparr>) = imagePartFromResponse r"
    "finishReasonOf (r\<lparr>promptFeedback := None\<rparr>) = finishReasonOf r"
    by (simp_all add: imagePartFromResponse_def finishReasonOf_def firstCandidate_def)
  have eq: "handleApiResponse r ctx = handleApiResponse (r\<lparr>promptFeedback := None\<rparr>) ctx"
    using nb nb' same by (simp add: handleApiResponse_def Let_def split: option.splits)
  have "\<forall>m. handleApiResponse r ctx \<noteq> Inl (Blocked m)"
    using nb by (simp add: handleApiResponse_def Let_def split: option.splits)
  with eq show ?thesis by simp
qed

theorem empty_block_reason_not_blocked_witness:
  "blockReason \<lparr>blockReason = Some [], blockReasonMessage = Some ''ignored''\<rparr> = Some []
   \<and> handleApiResponse
     \<lparr>promptFeedback = Some \<lparr>blockReason = Some [], blockReasonMessage = Some ''ignored''\<rparr>,
      candidates = Some [\<lparr>content = Some \<lparr>parts = Some
        [\<lparr>inlineData = Some \<lparr>mimeType = Some ''image/png'', data = Some ''iVBORw''\<rparr>\<rparr>]\<rparr>,
        finishReason = Some ''STOP''\<rparr>],
      text_getter = None\<rparr> ''edit''
   = handleApiResponse
     \<lparr>promptFeedback = None,
      candidates = Some [\<lparr>content = Some \<lparr>parts = Some
        [\<lparr>inlineData = Some \<lparr>mimeType = Some ''image/png'', data = Some ''iVBORw''\<rparr>\<rparr>]\<rparr>,
        finishReason = Some ''STOP''\<rparr>],
      text_getter = None\<rparr> ''edit''
   \<and> handleApiResponse
     \<lparr>promptFeedback = Some \<lparr>blockReason = Some [], blockReasonMessage = Some ''ignored''\<rparr>,
      candidates = Some [\<lparr>content = Some \<lparr>parts = Some
        [\<lparr>inlineData = Some \<lparr>mimeType = Some ''image/png'', data = Some ''iVBORw''\<rparr>\<rparr>]\<rparr>,
        finishReason = Some ''STOP''\<rparr>],
      text_getter = None\<rparr> ''edit''
   = Inr ''data:image/png;base64,iVBORw''"
proof -
  let ?pf = "\<lparr>blockReason = Some [], blockReasonMessage = Some ''ignored''\<rparr>"
  let ?r = "\<lparr>promptFeedback = Some ?pf,
      candidates = Some [\<lparr>content = Some \<lparr>parts = Some
        [\<lparr>inlineData = Some \<lparr>mimeType = Some ''image/png'', data = Some ''iVBORw''\<rparr>\<rparr>]\<rparr>,
        finishReason = Some ''STOP''\<rparr>],
      text_getter = None\<rparr>"
  have h1: "promptFeedback ?r = Some ?pf" by simp
  have h2: "blockReason ?pf = Some []" by simp
  from empty_block_reason_not_blocked [OF h1 h2, of "''edit''"]
  show ?thesis by (simp add: eval_defs)
qed

text \<open>
  Claim C1, as stated, fails: a block reason that is present but empty is not null, and the
  response below, which also carries an image, is classified as a success.
\<close>

theorem block_reason_empty_counterexample:
  "blockReasonOf
     \<lparr>promptFeedback = Some \<lparr>blockReason = Some [], blockReasonMessage = None\<rparr>,
      candidates = Some [\<lparr>content = Some \<lparr>parts = Some
        [\<lparr>inlineData = Some \<lparr>mimeType = Some ''image/png'', data = Some ''iVBORw''\<rparr>\<rparr>]\<rparr>,
        finishReason = Some ''STOP''\<rparr>],
      text_getter = None\<rparr> = Some []
   \<and> handleApiResponse
     \<lparr>promptFeedback = Some \<lparr>blockReason = Some [], blockReasonMessage = None\<rparr>,
      candidates = Some [\<lparr>content = Some \<lparr>parts = Some
        [\<lparr>inlineData = Some \<lparr>mimeType = Some ''image/png'', data = Some ''iVBORw''\<rparr>\<rparr>]\<rparr>,
        finishReason = Some ''STOP''\<rparr>],
      text_getter = None\<rparr> ''edit''
   = Inr ''data:image/png;base64,iVBORw''"
  by (simp add: eval_defs)

text \<open>
  Claim C1, amended. For every response whose prompt feedback carries a block reason that is
  present and not the empty string, the classifier fails in the prompt-block branch. The
  message is \<^verbatim>\<open>Request was blocked. Reason: <reason>. <explanation>\<close>, with an absent explanation
  left empty, so it contains the block reason. The outcome is the same whatever
  candidates, free text and context label the response carries: the check comes before
  any candidate is inspected.
\<close>

theorem blocked_before_candidates:
  assumes "promptFeedback r = Some pf" and "blockReason pf = Some br" and "br \<noteq> []"
  shows "handleApiResponse r ctx =
      Inl (Blocked (''Request was blocked. Reason: '' @ br @ ''. ''
        @ (case blockReasonMessage pf of None \<Rightarrow> [] | Some m \<Rightarrow> m)))
    \<and> sublist br (''Request was blocked. Reason: '' @ br @ ''. ''
        @ (case blockReasonMessage pf of None \<Rightarrow> [] | Some m \<Rightarrow> m))
    \<and> handleApiResponse (r\<lparr>candidates := cands, text_getter := txt\<rparr>) ctx' =
      handleApiResponse r ctx"
proof -
  have t: "truthy (blockReasonOf r)"
    "truthy (blockReasonOf (r\<lparr>candidates := cands, text_getter := txt\<rparr>))"
    using assms by (simp_all add: blockReasonOf_def truthy_def)
  have m: "blockedMessage (blockReasonOf r) (blockReasonMessageOf r) =
    ''Request was blocked. Reason: '' @ br @ ''. ''
        @ (case blockReasonMessage pf of None \<Rightarrow> [] | Some m \<Rightarrow> m)"
    using assms
    by (simp add: blockedMessage_def blockReasonOf_def blockReasonMessageOf_def tmpl_def
        or_empty_def truthy_def split: option.splits)
  have r1: "handleApiResponse r ctx =
      Inl (Blocked (''Request was blocked. Reason: '' @ br @ ''. ''
        @ (case blockReasonMessage pf of None \<Rightarrow> [] | Some m \<Rightarrow> m)))"
    using t(1) m by (simp only: handleApiResponse_def if_True)
  have r2: "handleApiResponse (r\<lparr>candidates := cands, text_getter := txt\<rparr>) ctx' =
      handleApiResponse r ctx"
    using t by (simp add: handleApiResponse_def blockReasonOf_def blockReasonMessageOf_def)
  have s: "sublist br (''Request was blocked. Reason: '' @ br @ ''. ''
        @ (case blockReasonMessage pf of None \<Rightarrow> [] | Some m \<Rightarrow> m))"
    by (rule sublist_appendI)
  from r1 s r2 show ?thesis by (intro conjI)
qed

theorem blocked_before_candidates_witness:
  "blockReason \<lparr>blockReason = Some ''SAFETY'', blockReasonMessage = None\<rparr> = Some ''SAFETY''
   \<and> handleApiResponse
     \<lparr>promptFeedback = Some \<lparr>blockReason = Some ''SAFETY'', blockReasonMessage = None\<rparr>,
      candidates = Some [\<lparr>content = Some \<lparr>parts = Some
        [\<lparr>inlineData = Some \<lparr>mimeType = Some ''image/png'', data = Some ''iVBORw''\<rparr>\<rparr>]\<rparr>,
        finishReason = Some ''STOP''\<rparr>],
      text_getter = Some ''done''\<rparr> ''edit''
   = Inl (Blocked ''Request was blocked. Reason: SAFETY. '')"
proof -
  let ?pf = "\<lparr>blockReason = Some ''SAFETY'', blockReasonMessage = None\<rparr>"
  let ?r = "\<lparr>promptFeedback = Some ?pf,
      candidates = Some [\<lparr>content = Some \<lparr>parts = Some
        [\<lparr>inlineData = Some \<lparr>mimeType = Some ''image/png'', data = Some ''iVBORw''\<rparr>\<rparr>]\<rparr>,
        finishReason = Some ''STOP''\<rparr>],
      text_getter = Some ''done''\<rparr>"
  have h1: "promptFeedback ?r = Some ?pf" by simp
  have h2: "blockReason ?pf = Some ''SAFETY''" by simp
  have h3: "''SAFETY'' \<noteq> []" by simp
  from blocked_before_candidates [OF h1 h2 h3, of "''edit''"]
  show ?thesis by simp
qed

text \<open>
  Claim C2, as stated, fails: the response below has no block reason and contains a content
  segment with inline image data, in its second candidate, and it is classified as a
  failure with the generic message.
\<close>

theorem image_in_later_candidate_counterexample:
  "handleApiResponse
     \<lparr>promptFeedback = None,
      candidates = Some
        [\<lparr>content = None, finishReason = None\<rparr>,
         \<lparr>content = Some \<lparr>parts = Some
            [\<lparr>inlineData = Some \<lparr>mimeType = Some ''image/png'', data = Some ''iVBORw''\<rparr>\<rparr>]\<rparr>,
          finishReason = Some ''STOP''\<rparr>],
      text_getter = None\<rparr> ''edit''
   = Inl (EmptyResult (''The AI model did not return an image for the edit. '' @ genericAdvice))"
  by (simp add: eval_defs)

text \<open>
  Claim C2, amended. For every response with no block reason (absent or empty) whose first
  candidate contains a content segment with inline data, the classifier succeeds with the
  data URL \<^verbatim>\<open>data:<mediatype>;base64,<payload>\<close> built from the media type and the payload
  of the first such segment of that candidate, \<open>p\<close> below; a media type or payload that is
  absent is written \<^verbatim>\<open>undefined\<close>, as the template literal of the source does. The outcome is
  the same for every finish reason of the candidate.
\<close>

theorem image_of_first_candidate:
  assumes "\<not> truthy (blockReasonOf r)"
    and "candidates r = Some (c # cs)"
    and "partsOf c = pre @ p # post"
    and "\<forall>q\<in>set pre. inlineData q = None"
    and "inlineData p = Some b"
  shows "handleApiResponse r ctx =
      Inr (''data:'' @ tmpl (mimeType b) @ '';base64,'' @ tmpl (data b))
    \<and> (\<forall>fr. handleApiResponse
          (r\<lparr>candidates := Some (c\<lparr>finishReason := fr\<rparr> # cs)\<rparr>) ctx =
        handleApiResponse r ctx)"
proof -
  have a: "handleApiResponse r ctx =
      Inr (''data:'' @ tmpl (mimeType b) @ '';base64,'' @ tmpl (data b))"
    using assms by (rule unblocked_image)
  have b: "handleApiResponse (r\<lparr>candidates := Some (c\<lparr>finishReason := fr\<rparr> # cs)\<rparr>) ctx =
      Inr (''data:'' @ tmpl (mimeType b) @ '';base64,'' @ tmpl (data b))" for fr
  proof (rule unblocked_image)
    show "\<not> truthy (blockReasonOf (r\<lparr>candidates := Some (c\<lparr>finishReason := fr\<rparr> # cs)\<rparr>))"
      using assms(1) by (simp add: blockReasonOf_def)
    show "candidates (r\<lparr>candidates := Some (c\<lparr>finishReason := fr\<rparr> # cs)\<rparr>) =
      Some (c\<lparr>finishReason := fr\<rparr> # cs)" by simp
    show "partsOf (c\<lparr>finishReason := fr\<rparr>) = pre @ p # post"
      using assms(3) by (simp add: partsOf_def)
    show "\<forall>q\<in>set pre. inlineData q = None" by (rule assms(4))
    show "inlineData p = Some b" by (rule assms(5))
  qed
  from a b show ?thesis by simp
qed

theorem image_of_first_candidate_witness:
  "handleApiResponse
     \<lparr>promptFeedback = None,
      candidates = Some [\<lparr>content = Some \<lparr>parts = Some
        [\<lparr>inlineData = None\<rparr>,
         \<lparr>inlineData = Some \<lparr>mimeType = Some ''image/png'', data = Some ''iVBORw''\<rparr>\<rparr>,
         \<lparr>inlineData = Some \<lparr>mimeType = Some ''image/jpeg'', data = Some ''AAAA''\<rparr>\<rparr>]\<rparr>,
        finishReason = Some ''SAFETY''\<rparr>],
      text_getter = None\<rparr> ''edit''
   = Inr ''data:image/png;base64,iVBORw''"
proof -
  let ?b = "\<lparr>mimeType = Some ''image/png'', data = Some ''iVBORw''\<rparr>"
  let ?p = "\<lparr>inlineData = Some ?b\<rparr>"
  let ?post = "[\<lparr>inlineData = Some \<lparr>mimeType = Some ''image/jpeg'', data = Some ''AAAA''\<rparr>\<rparr>]"
  let ?pre = "[\<lparr>inlineData = None\<rparr>]"
  let ?c = "\<lparr>content = Some \<lparr>parts = Some (?pre @ ?p # ?post)\<rparr>,
        finishReason = Some ''SAFETY''\<rparr>"
  let ?r = "\<lparr>promptFeedback = None, candidates = Some [?c], text_getter = None\<rparr>"
  have h1: "\<not> truthy (blockReasonOf ?r)" by (simp add: blockReasonOf_def truthy_def)
  have h2: "candidates ?r = Some (?c # [])" by simp
  have h3: "partsOf ?c = ?pre @ ?p # ?post" by (simp add: partsOf_def)
  have h4: "\<forall>q\<in>set ?pre. inlineData q = None" by simp
  have h5: "inlineData ?p = Some ?b" by simp
  from image_of_first_candidate [OF h1 h2 h3 h4 h5, of "''edit''"]
  show ?thesis by (simp add: tmpl_def)
qed

text \<open>
  Claim C3, as stated, fails: in the response below the finish reason is present and is not
  \<^verbatim>\<open>STOP\<close>, there is no block and no image, and the classifier fails with the generic
  message of the fallback branch, since the empty string is not truthy.
\<close>

theorem empty_finish_reason_counterexample:
  "finishReasonOf
     \<lparr>promptFeedback = None,
      candidates = Some [\<lparr>content = None, finishReason = Some []\<rparr>],
      text_getter = None\<rparr> = Some []
   \<and> handleApiResponse
     \<lparr>promptFeedback = None,
      candidates = Some [\<lparr>content = None, finishReason = Some []\<rparr>],
      text_getter = None\<rparr> ''edit''
   = Inl (EmptyResult (''The AI model did not return an image for the edit. '' @ genericAdvice))"
  by (simp add: eval_defs)

text \<open>
  Claim C3, amended. For every response with no block reason, no inline-data segment in the
  first candidate, and a finish reason of the first candidate that is present, not empty and
  not \<^verbatim>\<open>STOP\<close>, the classifier fails in the abnormal-stop branch, and the message contains the
  finish reason.
\<close>

theorem abnormal_stop:
  assumes "\<not> truthy (blockReasonOf r)"
    and "candidates r = Some (c # cs)"
    and "\<forall>q\<in>set (partsOf c). inlineData q = None"
    and "finishReason c = Some fr"
    and "fr \<noteq> []"
    and "fr \<noteq> ''STOP''"
  shows "handleApiResponse r ctx =
      Inl (StoppedEarly (''Image generation for '' @ ctx @ '' stopped unexpectedly. Reason: ''
        @ fr @ ''. This often relates to safety settings.''))
    \<and> sublist fr (''Image generation for '' @ ctx @ '' stopped unexpectedly. Reason: ''
        @ fr @ ''. This often relates to safety settings.'')"
proof -
  have "imagePartFromResponse r = None"
    using assms(2,3) by (simp add: imagePart_firstCandidate find_None_iff)
  moreover have "finishReasonOf r = Some fr"
    using assms(2,4) by (simp add: finishReason_firstCandidate)
  ultimately have a: "handleApiResponse r ctx =
      Inl (StoppedEarly (stoppedMessage ctx (Some fr)))"
    using assms(1,5,6) by (simp add: unblocked_no_image truthy_def)
  have m: "stoppedMessage ctx (Some fr) =
    (''Image generation for '' @ ctx @ '' stopped unexpectedly. Reason: '') @ fr
      @ ''. This often relates to safety settings.''"
    by (simp add: stoppedMessage_def tmpl_def)
  have s: "sublist fr ((''Image generation for '' @ ctx @ '' stopped unexpectedly. Reason: '')
      @ fr @ ''. This often relates to safety settings.'')"
    by (rule sublist_appendI)
  from a m s show ?thesis by simp
qed

theorem abnormal_stop_witness:
  "finishReason \<lparr>content = Some \<lparr>parts = Some [\<lparr>inlineData = None\<rparr>]\<rparr>,
        finishReason = Some ''MAX_TOKENS''\<rparr> = Some ''MAX_TOKENS''
   \<and> handleApiResponse
     \<lparr>promptFeedback = None,
      candidates = Some [\<lparr>content = Some \<lparr>parts = Some [\<lparr>inlineData = None\<rparr>]\<rparr>,
        finishReason = Some ''MAX_TOKENS''\<rparr>],
      text_getter = None\<rparr> ''edit''
   = Inl (StoppedEarly (''Image generation for edit stopped unexpectedly. Reason: MAX_TOKENS.''
       @ '' This often relates to safety settings.''))"
proof -
  let ?c = "\<lparr>content = Some \<lparr>parts = Some [\<lparr>inlineData = None\<rparr>]\<rparr>,
        finishReason = Some ''MAX_TOKENS''\<rparr>"
  let ?r = "\<lparr>promptFeedback = None, candidates = Some [?c], text_getter = None\<rparr>"
  have h1: "\<not> truthy (blockReasonOf ?r)" by (simp add: blockReasonOf_def truthy_def)
  have h2: "candidates ?r = Some (?c # [])" by simp
  have h3: "\<forall>q\<in>set (partsOf ?c). inlineData q = None" by (simp add: partsOf_def)
  have h4: "finishReason ?c = Some ''MAX_TOKENS''" by simp
  have h5: "''MAX_TOKENS'' \<noteq> []" by simp
  have h6: "''MAX_TOKENS'' \<noteq> ''STOP''" by simp
  from abnormal_stop [OF h1 h2 h3 h4 h5 h6, of "''edit''"]
  show ?thesis by simp
qed

text \<open>
  Claim C4, as stated, fails: for the response of the spec's scenario D the failure message
  is not the free text of the response; it is a sentence naming the context that quotes
  the text.
\<close>

theorem empty_result_message_counterexample:
  "handleApiResponse
     \<lparr>promptFeedback = None,
      candidates = Some [\<lparr>content = None, finishReason = Some ''STOP''\<rparr>],
      text_getter = Some ''I cannot complete this request.''\<rparr> ''edit''
   = Inl (EmptyResult
       (''The AI model did not return an image for the edit. The model responded with text: ''
        @ [CHR 0x22] @ ''I cannot complete this request.'' @ [CHR 0x22]))
   \<and> ''The AI model did not return an image for the edit. The model responded with text: ''
        @ [CHR 0x22] @ ''I cannot complete this request.'' @ [CHR 0x22]
     \<noteq> ''I cannot complete this request.''"
  by (simp add: eval_defs)

text \<open>
  Claim C4, amended. For every response with no block reason, no inline-data segment in the
  first candidate, and a finish reason that is absent or \<^verbatim>\<open>STOP\<close>, the classifier fails in the
  fallback branch. The message is \<^verbatim>\<open>The AI model did not return an image for the <context>. \<close>
  followed by \<^verbatim>\<open>The model responded with text: "<t>"\<close>, where \<open>t\<close> is the free text of the
  response without its leading and trailing white space, when \<open>t\<close> is not empty, and followed
  by the fixed advice to rephrase the prompt otherwise.
\<close>

theorem empty_result:
  assumes "\<not> truthy (blockReasonOf r)"
    and "\<forall>c. firstCandidate r = Some c \<longrightarrow> (\<forall>q\<in>set (partsOf c). inlineData q = None)"
    and "finishReasonOf r = None \<or> finishReasonOf r = Some ''STOP''"
  shows "handleApiResponse r ctx =
      Inl (EmptyResult (''The AI model did not return an image for the '' @ ctx @ ''. ''
        @ (case text_getter r of
             None \<Rightarrow> genericAdvice
           | Some t \<Rightarrow>
               if trim t = [] then genericAdvice
               else ''The model responded with text: '' @ [CHR 0x22] @ trim t @ [CHR 0x22])))"
proof -
  have "imagePartFromResponse r = None"
  proof (cases "firstCandidate r")
    case None
    then show ?thesis by (simp add: imagePartFromResponse_def)
  next
    case (Some c)
    with assms(2) have "\<forall>q\<in>set (partsOf c). inlineData q = None" by simp
    then have "List.find (\<lambda>part. inlineData part \<noteq> None) (partsOf c) = None"
      by (simp add: find_None_iff)
    with Some show ?thesis
      by (auto simp: imagePartFromResponse_def partsOf_def split: option.splits)
  qed
  moreover have "\<not> (truthy (finishReasonOf r) \<and> finishReasonOf r \<noteq> Some ''STOP'')"
    using assms(3) by (auto simp: truthy_def)
  ultimately have "handleApiResponse r ctx =
      Inl (EmptyResult (emptyMessage ctx (map_option trim (text_getter r))))"
    using assms(1) by (simp add: unblocked_no_image)
  moreover have "emptyMessage ctx (map_option trim (text_getter r)) =
    ''The AI model did not return an image for the '' @ ctx @ ''. ''
        @ (case text_getter r of
             None \<Rightarrow> genericAdvice
           | Some t \<Rightarrow>
               if trim t = [] then genericAdvice
               else ''The model responded with text: '' @ [CHR 0x22] @ trim t @ [CHR 0x22])"
    by (simp add: emptyMessage_def truthy_def tmpl_def split: option.splits)
  ultimately show ?thesis by simp
qed

theorem empty_result_witness:
  "finishReasonOf
     \<lparr>promptFeedback = None,
      candidates = Some [\<lparr>content = None, finishReason = Some ''STOP''\<rparr>],
      text_getter = Some '' I cannot complete this request. ''\<rparr> = Some ''STOP''
   \<and> handleApiResponse
     \<lparr>promptFeedback = None,
      candidates = Some [\<lparr>content = None, finishReason = Some ''STOP''\<rparr>],
      text_getter = Some '' I cannot complete this request. ''\<rparr> ''edit''
   = Inl (EmptyResult
       (''The AI model did not return an image for the edit. The model responded with text: ''
        @ [CHR 0x22] @ ''I cannot complete this request.'' @ [CHR 0x22]))
   \<and> handleApiResponse
     \<lparr>promptFeedback = None, candidates = None, text_getter = Some ''  ''\<rparr> ''filter''
   = Inl (EmptyResult (''The AI model did not return an image for the filter. ''
        @ ''This can happen due to safety filters or if the request is too complex. ''
        @ ''Please try rephrasing your prompt to be more direct.''))"
proof -
  let ?c = "\<lparr>content = None, finishReason = Some ''STOP''\<rparr>"
  let ?r = "\<lparr>promptFeedback = None, candidates = Some [?c],
      text_getter = Some '' I cannot complete this request. ''\<rparr>"
  let ?r2 = "\<lparr>promptFeedback = None, candidates = None, text_getter = Some ''  ''\<rparr>"
  have h1: "\<not> truthy (blockReasonOf ?r)" by (simp add: blockReasonOf_def truthy_def)
  have h2: "\<forall>c. firstCandidate ?r = Some c \<longrightarrow> (\<forall>q\<in>set (partsOf c). inlineData q = None)"
    by (simp add: firstCandidate_def first_elem_def partsOf_def)
  have h3: "finishReasonOf ?r = None \<or> finishReasonOf ?r = Some ''STOP''"
    by (simp add: finishReasonOf_def firstCandidate_def first_elem_def)
  have k1: "\<not> truthy (blockReasonOf ?r2)" by (simp add: blockReasonOf_def truthy_def)
  have k2: "\<forall>c. firstCandidate ?r2 = Some c \<longrightarrow> (\<forall>q\<in>set (partsOf c). inlineData q = None)"
    by (simp add: firstCandidate_def)
  have k3: "finishReasonOf ?r2 = None \<or> finishReasonOf ?r2 = Some ''STOP''"
    by (simp add: finishReasonOf_def firstCandidate_def)
  have t1: "trim '' I cannot complete this request. '' = ''I cannot complete this request.''"
    by (simp add: trim_def is_ws_def)
  have t2: "trim ''  '' = []" by (simp add: trim_def is_ws_def)
  from empty_result [OF h1 h2 h3, of "''edit''"] empty_result [OF k1 k2 k3, of "''filter''"]
  show ?thesis
    by (simp add: t1 t2 genericAdvice_def finishReasonOf_def firstCandidate_def first_elem_def)
qed

text \<open>
  Claim C8. Only the first candidate is inspected. For every response with no block reason
  whose first candidate has no inline-data segment, the outcome is decided by the finish
  reason of the first candidate and the free text: it is the abnormal-stop failure or the
  fallback failure, never a success, and it is the outcome for the response cut down to its
  first candidate, whatever the later candidates \<open>cs\<close> contain.
\<close>

theorem only_first_candidate:
  assumes "\<not> truthy (blockReasonOf r)"
    and "candidates r = Some (c # cs)"
    and "\<forall>q\<in>set (partsOf c). inlineData q = None"
  shows "handleApiResponse r ctx =
      (if truthy (finishReason c) \<and> finishReason c \<noteq> Some ''STOP''
       then Inl (StoppedEarly (stoppedMessage ctx (finishReason c)))
       else Inl (EmptyResult (emptyMessage ctx (map_option trim (text_getter r)))))
    \<and> (\<forall>url. handleApiResponse r ctx \<noteq> Inr url)
    \<and> handleApiResponse r ctx = handleApiResponse (r\<lparr>candidates := Some [c]\<rparr>) ctx"
proof -
  have n: "imagePartFromResponse r' = None" if "candidates r' = Some (c # cs')" for r' cs'
    using that assms(3) by (simp add: imagePart_firstCandidate find_None_iff)
  have a: "handleApiResponse r ctx =
      (if truthy (finishReason c) \<and> finishReason c \<noteq> Some ''STOP''
       then Inl (StoppedEarly (stoppedMessage ctx (finishReason c)))
       else Inl (EmptyResult (emptyMessage ctx (map_option trim (text_getter r)))))"
    using assms(1,2) n [of r cs]
    by (simp add: unblocked_no_image finishReason_firstCandidate)
  have nb: "\<not> truthy (blockReasonOf (r\<lparr>candidates := Some [c]\<rparr>))"
    using assms(1) by (simp add: blockReasonOf_def)
  have b: "handleApiResponse (r\<lparr>candidates := Some [c]\<rparr>) ctx =
      (if truthy (finishReason c) \<and> finishReason c \<noteq> Some ''STOP''
       then Inl (StoppedEarly (stoppedMessage ctx (finishReason c)))
       else Inl (EmptyResult (emptyMessage ctx (map_option trim (text_getter r)))))"
    using nb n [of "r\<lparr>candidates := Some [c]\<rparr>" "[]"]
    by (simp add: unblocked_no_image finishReason_firstCandidate)
  from a have c: "\<forall>url. handleApiResponse r ctx \<noteq> Inr url" by simp
  from a b c show ?thesis by simp
qed

theorem only_first_candidate_witness:
  "candidates
     \<lparr>promptFeedback = None,
      candidates = Some
        [\<lparr>content = Some \<lparr>parts = Some [\<lparr>inlineData = None\<rparr>]\<rparr>, finishReason = Some ''STOP''\<rparr>,
         \<lparr>content = Some \<lparr>parts = Some
            [\<lparr>inlineData = Some \<lparr>mimeType = Some ''image/png'', data = Some ''iVBORw''\<rparr>\<rparr>]\<rparr>,
          finishReason = Some ''STOP''\<rparr>],
      text_getter = None\<rparr>
   = Some
        [\<lparr>content = Some \<lparr>parts = Some [\<lparr>inlineData = None\<rparr>]\<rparr>, finishReason = Some ''STOP''\<rparr>,
         \<lparr>content = Some \<lparr>parts = Some
            [\<lparr>inlineData = Some \<lparr>mimeType = Some ''image/png'', data = Some ''iVBORw''\<rparr>\<rparr>]\<rparr>,
          finishReason = Some ''STOP''\<rparr>]
   \<and> handleApiResponse
     \<lparr>promptFeedback = None,
      candidates = Some
        [\<lparr>content = Some \<lparr>parts = Some [\<lparr>inlineData = None\<rparr>]\<rparr>, finishReason = Some ''STOP''\<rparr>,
         \<lparr>content = Some \<lparr>parts = Some
            [\<lparr>inlineData = Some \<lparr>mimeType = Some ''image/png'', data = Some ''iVBORw''\<rparr>\<rparr>]\<rparr>,
          finishReason = Some ''STOP''\<rparr>],
      text_getter = None\<rparr> ''mockup''
   = Inl (EmptyResult (''The AI model did not return an image for the mockup. ''
        @ ''This can happen due to safety filters or if the request is too complex. ''
        @ ''Please try rephrasing your prompt to be more direct.''))"
proof -
  let ?c = "\<lparr>content = Some \<lparr>parts = Some [\<lparr>inlineData = None\<rparr>]\<rparr>, finishReason = Some ''STOP''\<rparr>"
  let ?cs = "[\<lparr>content = Some \<lparr>parts = Some
            [\<lparr>inlineData = Some \<lparr>mimeType = Some ''image/png'', data = Some ''iVBORw''\<rparr>\<rparr>]\<rparr>,
          finishReason = Some ''STOP''\<rparr>]"
  let ?r = "\<lparr>promptFeedback = None, candidates = Some (?c # ?cs), text_getter = None\<rparr>"
  have h1: "\<not> truthy (blockReasonOf ?r)" by (simp add: blockReasonOf_def truthy_def)
  have h2: "candidates ?r = Some (?c # ?cs)" by simp
  have h3: "\<forall>q\<in>set (partsOf ?c). inlineData q = None" by (simp add: partsOf_def)
  from only_first_candidate [OF h1 h2 h3, of "''mockup''"]
  show ?thesis by (simp add: truthy_def emptyMessage_def genericAdvice_def)
qed

text \<open>
  Claim C10. The image-present check does not look at the media type: for every unblocked
  response whose first candidate's first inline-data segment declares the media type \<open>mt\<close>,
  any string at all (an image type or not), the classifier succeeds with the data URL
  built from \<open>mt\<close> and the payload. The instance after it takes \<^verbatim>\<open>text/plain\<close>.
\<close>

theorem any_media_type_accepted:
  assumes "\<not> truthy (blockReasonOf r)"
    and "candidates r = Some (c # cs)"
    and "partsOf c = pre @ p # post"
    and "\<forall>q\<in>set pre. inlineData q = None"
    and "inlineData p = Some \<lparr>mimeType = Some mt, data = Some payload\<rparr>"
  shows "handleApiResponse r ctx = Inr (''data:'' @ mt @ '';base64,'' @ payload)"
  using unblocked_image [OF assms, of ctx] by (simp add: tmpl_def)

theorem any_media_type_accepted_witness:
  "handleApiResponse
     \<lparr>promptFeedback = None,
      candidates = Some [\<lparr>content = Some \<lparr>parts = Some
        [\<lparr>inlineData = Some \<lparr>mimeType = Some ''text/plain'', data = Some ''aGVsbG8=''\<rparr>\<rparr>]\<rparr>,
        finishReason = Some ''STOP''\<rparr>],
      text_getter = None\<rparr> ''ad''
   = Inr ''data:text/plain;base64,aGVsbG8=''"
proof -
  let ?p = "\<lparr>inlineData = Some \<lparr>mimeType = Some ''text/plain'', data = Some ''aGVsbG8=''\<rparr>\<rparr>"
  let ?c = "\<lparr>content = Some \<lparr>parts = Some [?p]\<rparr>, finishReason = Some ''STOP''\<rparr>"
  let ?r = "\<lparr>promptFeedback = None, candidates = Some [?c], text_getter = None\<rparr>"
  have h1: "\<not> truthy (blockReasonOf ?r)" by (simp add: blockReasonOf_def truthy_def)
  have h2: "candidates ?r = Some (?c # [])" by simp
  have h3: "partsOf ?c = [] @ ?p # []" by (simp add: partsOf_def)
  have h4: "\<forall>q\<in>set ([] :: Part list). inlineData q = None" by simp
  have h5: "inlineData ?p = Some \<lparr>mimeType = Some ''text/plain'', data = Some ''aGVsbG8=''\<rparr>"
    by simp
  from any_media_type_accepted [OF h1 h2 h3 h4 h5, of "''ad''"]
  show ?thesis by simp
qed

section \<open>Claims about the request encoder\<close>

text \<open>
  Claim C5, as stated, fails: the data URL below is well formed, its media type carries a
  parameter, and the media type that \<^verbatim>\<open>fileToPart\<close> returns is cut at the first semicolon; it
  is not the original media type.
\<close>

theorem media_type_parameters_counterexample:
  "fileToPart ''data:image/svg+xml;charset=utf-8;base64,iVBORw0KGgo='' =
     Inr \<lparr>inlineData = Some \<lparr>mimeType = Some ''image/svg+xml'', data = Some ''iVBORw0KGgo=''\<rparr>\<rparr>
   \<and> ''image/svg+xml'' \<noteq> ''image/svg+xml;charset=utf-8''"
  by (simp add: fileToPart_def is_line_terminator_def)

text \<open>
  Claim C5, amended. For every data URL \<^verbatim>\<open>data:<type>;base64,<payload>\<close> whose media type
  \<open>ty\<close> is not empty and has no semicolon (no parameters), comma or line terminator, and
  whose payload has no comma (no base64 text has one), the part that \<^verbatim>\<open>fileToPart\<close> returns
  carries exactly the media type and exactly the payload. In general, on
  \<^verbatim>\<open>data:<type>;<params>,<payload>\<close> with such a type and no comma in \<open>params\<close>, it returns the
  type, that is the media type up to its first semicolon, and the payload up to its first
  comma.
\<close>

theorem fileToPart_round_trip:
  assumes "ty \<noteq> []"
    and "\<forall>ch\<in>set ty. ch \<noteq> CHR '','' \<and> ch \<noteq> CHR '';'' \<and> \<not> is_line_terminator ch"
    and "CHR '','' \<notin> set params"
  shows "(CHR '','' \<notin> set payload \<longrightarrow>
      fileToPart (''data:'' @ ty @ '';base64,'' @ payload) =
        Inr \<lparr>inlineData = Some \<lparr>mimeType = Some ty, data = Some payload\<rparr>\<rparr>)
    \<and> fileToPart (''data:'' @ ty @ CHR '';'' # params @ CHR '','' # payload) =
        Inr \<lparr>inlineData = Some \<lparr>mimeType = Some ty,
          data = Some (takeWhile (\<lambda>x. x \<noteq> CHR '','') payload)\<rparr>\<rparr>"
proof -
  let ?P = "\<lambda>x. x \<noteq> CHR '',''"
  have g: "fileToPart (''data:'' @ ty @ CHR '';'' # m @ CHR '','' # payload) =
        Inr \<lparr>inlineData = Some \<lparr>mimeType = Some ty, data = Some (takeWhile ?P payload)\<rparr>\<rparr>"
    if "CHR '','' \<notin> set m" for m
  proof -
    have "dropWhile ?P (m @ CHR '','' # payload) = CHR '','' # payload"
      using that by (subst dropWhile_append2) auto
    moreover have "CHR '','' \<in> set (m @ CHR '','' # payload)" by simp
    ultimately show ?thesis
      using fileToPart_typed_url [OF assms(1,2), of "m @ CHR '','' # payload"] by simp
  qed
  have a: "fileToPart (''data:'' @ ty @ '';base64,'' @ payload) =
        Inr \<lparr>inlineData = Some \<lparr>mimeType = Some ty, data = Some payload\<rparr>\<rparr>"
    if "CHR '','' \<notin> set payload"
  proof -
    have "takeWhile ?P payload = payload" using that by (auto simp: takeWhile_eq_all_conv)
    with g [of "''base64''"] show ?thesis by simp
  qed
  from a g [OF assms(3)] show ?thesis by simp
qed

theorem fileToPart_round_trip_witness:
  "CHR '','' \<notin> set ''iVBORw0KGgo=''
   \<and> fileToPart ''data:image/png;base64,iVBORw0KGgo='' =
     Inr \<lparr>inlineData = Some \<lparr>mimeType = Some ''image/png'', data = Some ''iVBORw0KGgo=''\<rparr>\<rparr>
   \<and> CHR '','' \<notin> set ''charset=utf-8;base64''
   \<and> fileToPart ''data:image/png;charset=utf-8;base64,iVBO,Rw0K'' =
     Inr \<lparr>inlineData = Some \<lparr>mimeType = Some ''image/png'', data = Some ''iVBO''\<rparr>\<rparr>"
proof -
  have h1: "''image/png'' \<noteq> []" by simp
  have h2: "\<forall>ch\<in>set ''image/png''. ch \<noteq> CHR '','' \<and> ch \<noteq> CHR '';'' \<and> \<not> is_line_terminator ch"
    by (simp add: is_line_terminator_def)
  have h3: "CHR '','' \<notin> set ''charset=utf-8;base64''" by simp
  have h4: "CHR '','' \<notin> set ''iVBORw0KGgo=''" by simp
  from fileToPart_round_trip [OF h1 h2 h3, of "''iVBORw0KGgo=''"]
    fileToPart_round_trip [OF h1 h2 h3, of "''iVBO,Rw0K''"] h3 h4
  show ?thesis by simp
qed



section \<open>Claims about the logo operation\<close>

text \<open>
  Claim C6, as stated, fails: the array below is not empty, and the operation does not
  return a data URL for its entry, which has no image object; the property read throws.
\<close>

theorem logo_without_image_counterexample:
  "generateLogos \<lparr>generatedImages = Some [\<lparr>image_obj = None\<rparr>]\<rparr> = Inl TypeError"
  by (simp add: generateLogos_def)

text \<open>
  Claim C6, amended. \<^verbatim>\<open>generateLogos\<close> fails with the failure of an empty result if and only
  if the array of generated images is absent or empty, and the message is then the fixed
  one. When the array is not empty and every entry carries an image object, it returns
  one data URL per entry, in order, each \<^verbatim>\<open>data:image/png;base64,<payload>\<close>, with an absent
  payload written \<^verbatim>\<open>undefined\<close>.
\<close>

theorem generateLogos_outcomes:
  "((\<exists>m. generateLogos r = Inl (EmptyResult m)) \<longleftrightarrow>
      generatedImages r = None \<or> generatedImages r = Some [])
   \<and> (generatedImages r = None \<or> generatedImages r = Some [] \<longrightarrow>
        generateLogos r = Inl (EmptyResult noImagesMessage))
   \<and> (generatedImages r = Some (map (\<lambda>im. \<lparr>image_obj = Some im\<rparr>) ims) \<and> ims \<noteq> [] \<longrightarrow>
        generateLogos r =
          Inr (map (\<lambda>im. ''data:image/png;base64,'' @ tmpl (imageBytes im)) ims))"
proof (intro conjI impI)
  show "(\<exists>m. generateLogos r = Inl (EmptyResult m)) \<longleftrightarrow>
      generatedImages r = None \<or> generatedImages r = Some []"
    using logoUrls_failure
    by (fastforce simp: generateLogos_def split: option.splits)
next
  assume "generatedImages r = None \<or> generatedImages r = Some []"
  then show "generateLogos r = Inl (EmptyResult noImagesMessage)"
    by (auto simp: generateLogos_def)
next
  assume "generatedImages r = Some (map (\<lambda>im. \<lparr>image_obj = Some im\<rparr>) ims) \<and> ims \<noteq> []"
  then show "generateLogos r =
      Inr (map (\<lambda>im. ''data:image/png;base64,'' @ tmpl (imageBytes im)) ims)"
    by (simp add: generateLogos_def logoUrls_all_images)
qed

theorem generateLogos_outcomes_witness:
  "generateLogos \<lparr>generatedImages = Some []\<rparr> = Inl (EmptyResult noImagesMessage)
   \<and> generateLogos \<lparr>generatedImages = None\<rparr> = Inl (EmptyResult noImagesMessage)
   \<and> generateLogos \<lparr>generatedImages = Some
        [\<lparr>image_obj = Some \<lparr>imageBytes = Some ''AAAA''\<rparr>\<rparr>,
         \<lparr>image_obj = Some \<lparr>imageBytes = Some ''BBBB''\<rparr>\<rparr>]\<rparr>
     = Inr [''data:image/png;base64,AAAA'', ''data:image/png;base64,BBBB'']"
proof -
  let ?ims = "[\<lparr>imageBytes = Some ''AAAA''\<rparr>, \<lparr>imageBytes = Some ''BBBB''\<rparr>]"
  let ?r = "\<lparr>generatedImages = Some (map (\<lambda>im. \<lparr>image_obj = Some im\<rparr>) ?ims)\<rparr>"
  have h: "generatedImages ?r = Some (map (\<lambda>im. \<lparr>image_obj = Some im\<rparr>) ?ims) \<and> ?ims \<noteq> []"
    by simp
  from generateLogos_outcomes [of "\<lparr>generatedImages = Some []\<rparr>"]
    generateLogos_outcomes [of "\<lparr>generatedImages = None\<rparr>"]
    generateLogos_outcomes [of ?r ?ims] h
  show ?thesis by (simp add: tmpl_def)
qed

end
